theory Spec2Isabelle
  imports Complex_Main "HOL-Library.Log_Nat"
begin

section \<open>JavaScript numbers\<close>

text \<open>
  Every number of the audit is a JavaScript number, an IEEE 754 binary64 value. A finite
  value is modelled by the rational it denotes, the two infinities and NaN by constructors
  of their own. The two zeros are identified: the audit only adds, subtracts, multiplies,
  divides by the literal 1000 and tests truthiness, and none of these tells \<open>+0\<close>
  from \<open>-0\<close>.
\<close>

datatype jsnum = Fin rat | PInf | NInf | NaN

text \<open>\<open>binade x\<close> is the exponent \<open>e\<close> with \<open>2^e \<le> |x| < 2^(e+1)\<close>, for \<open>x \<noteq> 0\<close>.\<close>

definition binade :: "rat \<Rightarrow> int" where
  "binade x =
     (let (p, q) = quotient_of \<bar>x\<bar>;
          k = bitlen p - bitlen q
      in if \<bar>x\<bar> < 2 powi k then k - 1 else k)"

text \<open>Rounding to the nearest integer, a tie going to the even one.\<close>

definition round_half_even :: "rat \<Rightarrow> int" where
  "round_half_even q =
     (let f = \<lfloor>q\<rfloor>; d = q - of_int f
      in if d < 1 / 2 then f
         else if 1 / 2 < d then f + 1
         else if even f then f else f + 1)"

text \<open>
  \<open>fl x\<close> is the binary64 value of the exact result \<open>x\<close> under the default rounding
  (to nearest, ties to even): 53 significant bits, the exponent of the last bit never below
  \<open>-1074\<close> (subnormal numbers), and an infinity when the rounded magnitude reaches
  \<open>2^1024\<close>.
\<close>

definition fl :: "rat \<Rightarrow> jsnum" where
  "fl x =
     (if x = 0 then Fin 0
      else
        let e = max (binade x) (- 1022) - 52;
            r = of_int (round_half_even (x / 2 powi e)) * 2 powi e
        in if 2 ^ 1024 \<le> \<bar>r\<bar> then (if 0 < x then PInf else NInf) else Fin r)"

fun js_neg :: "jsnum \<Rightarrow> jsnum" where
  "js_neg (Fin x) = Fin (- x)"
| "js_neg PInf = NInf"
| "js_neg NInf = PInf"
| "js_neg NaN = NaN"

text \<open>\<open>a + b\<close>\<close>

fun js_add :: "jsnum \<Rightarrow> jsnum \<Rightarrow> jsnum" where
  "js_add (Fin x) (Fin y) = fl (x + y)"
| "js_add NaN b = NaN"
| "js_add a NaN = NaN"
| "js_add PInf NInf = NaN"
| "js_add NInf PInf = NaN"
| "js_add PInf b = PInf"
| "js_add NInf b = NInf"
| "js_add (Fin x) b = b"

text \<open>\<open>a - b\<close>\<close>

definition js_sub :: "jsnum \<Rightarrow> jsnum \<Rightarrow> jsnum" where
  "js_sub a b = js_add a (js_neg b)"

text \<open>\<open>a * b\<close>\<close>

fun js_mul :: "jsnum \<Rightarrow> jsnum \<Rightarrow> jsnum" where
  "js_mul (Fin x) (Fin y) = fl (x * y)"
| "js_mul NaN b = NaN"
| "js_mul a NaN = NaN"
| "js_mul (Fin x) b = (if x = 0 then NaN else if 0 < x then b else js_neg b)"
| "js_mul a (Fin y) = (if y = 0 then NaN else if 0 < y then a else js_neg a)"
| "js_mul a b = (if a = b then PInf else NInf)"

text \<open>\<open>a / c\<close> for a positive finite constant \<open>c\<close>: the audit divides by the literal 1000 only.\<close>

fun js_div_const :: "jsnum \<Rightarrow> rat \<Rightarrow> jsnum" where
  "js_div_const (Fin x) c = fl (x / c)"
| "js_div_const a c = a"

text \<open>\<open>!a\<close> on a number: zero and NaN are falsy.\<close>

fun js_falsy :: "jsnum \<Rightarrow> bool" where
  "js_falsy (Fin x) = (x = 0)"
| "js_falsy NaN = True"
| "js_falsy a = False"

text \<open>A finite value is a JavaScript number when rounding leaves it as it is.\<close>

fun is_double :: "jsnum \<Rightarrow> bool" where
  "is_double (Fin x) = (fl x = Fin x)"
| "is_double a = True"

section \<open>The data the audit reads\<close>

record networkRecord =
  requestId :: string
  networkRequestTime :: jsnum
  networkEndTime :: jsnum
  responseHeadersEndTime :: jsnum

record navigationTimestamps =
  timeOrigin :: jsnum

record processedNavigation =
  timestamps :: navigationTimestamps

text \<open>A node of the simulation graph: \<open>node.type\<close> is \<open>'network'\<close> (with \<open>node.record\<close>) or \<open>'cpu'\<close>.\<close>

datatype simulationNode = NetworkNode networkRecord | CPUNode

record nodeTiming =
  startTime :: jsnum
  endTime :: jsnum

text \<open>\<open>nodeTimings\<close> is a JavaScript \<open>Map\<close>, read in insertion order.\<close>

record simulationEstimate =
  nodeTimings :: "(simulationNode \<times> nodeTiming) list"

text \<open>
  The result of the metric: \<open>pessimisticEstimate\<close> is \<open>None\<close> when the object has no
  such property (\<open>'pessimisticEstimate' in metricResult\<close> is false).
\<close>

record metricResult =
  timing :: jsnum
  pessimisticEstimate :: "simulationEstimate option"

record 'nd traceElement =
  traceEventType :: string
  node :: 'nd

record ('tr, 'dl, 'gc, 'url, 'nd) artifacts =
  traces :: "string \<rightharpoonup> 'tr"
  devtoolsLogs :: "string \<rightharpoonup> 'dl"
  GatherContext :: 'gc
  URL :: 'url
  TraceElements :: "'nd traceElement list"

record 'st auditContext =
  settings :: 'st

text \<open>
  The object \<open>{trace, devtoolsLog, gatherContext, settings, URL}\<close> handed to the computed
  metrics, its fields in this order. A trace or log missing for the pass is \<open>undefined\<close>.
\<close>

datatype ('tr, 'dl, 'gc, 'st, 'url) metricComputationData =
  MetricComputationData "'tr option" "'dl option" 'gc 'st 'url

text \<open>An exception thrown by a computed artifact; an \<open>await\<close> passes it on to the caller.\<close>

datatype error = Rejected string

text \<open>
  The code the audit imports and that is not among the sources is a parameter of the model:
  the name of the default pass (\<open>Audit.DEFAULT_PASS\<close>), the four computed artifacts and
  \<open>PrioritizeLcpImage.getLcpRecord\<close>.
\<close>

record ('tr, 'dl, 'gc, 'st, 'url) environment =
  DEFAULT_PASS :: string
  NetworkRecords_request :: "'dl option \<Rightarrow> 'st auditContext \<Rightarrow> error + networkRecord list"
  ProcessedNavigation_request :: "'tr option \<Rightarrow> 'st auditContext \<Rightarrow> error + processedNavigation"
  LargestContentfulPaint_request ::
    "('tr, 'dl, 'gc, 'st, 'url) metricComputationData \<Rightarrow> 'st auditContext \<Rightarrow> error + metricResult"
  MainResource_request ::
    "('tr, 'dl, 'gc, 'st, 'url) metricComputationData \<Rightarrow> 'st auditContext \<Rightarrow> error + networkRecord"
  getLcpRecord ::
    "'tr option \<Rightarrow> processedNavigation \<Rightarrow> networkRecord list \<Rightarrow> networkRecord option"

section \<open>The details the audit builds\<close>

text \<open>A string of the report: a literal, or a message of \<open>str_\<close> (here \<open>str_icu\<close>) with its values.\<close>

datatype lhString = Literal string | Icu string "(string \<times> nat) list"

record heading =
  key :: string
  valueType :: string
  label :: lhString

text \<open>A row of a table: \<open>{phase, timing}\<close> in the phase table, \<open>{node}\<close> in the element table.\<close>

datatype 'nd item = PhaseItem string jsnum | NodeItem 'nd

record 'nd table =
  headings :: "heading list"
  items :: "'nd item list"

record 'nd product =
  score :: jsnum
  notApplicable :: bool
  displayValue :: lhString
  details :: "'nd table list"

text \<open>
  Modelled from the spec: \<open>Audit.makeTableDetails\<close>, \<open>Audit.makeListDetails\<close> and
  \<open>Audit.makeNodeItem\<close> of audit.js and \<open>str_\<close> (here \<open>str_icu\<close>) of the i18n library are not among the
  sources. The spec leaves the presentation out of scope and only says that the element
  summary has one row identifying the node and that the groups are packaged in order, so a
  table is its headings and rows, a list its tables, a node item its node, and a localised
  string the name of its message with the values given.
\<close>

definition makeTableDetails :: "heading list \<Rightarrow> 'nd item list \<Rightarrow> 'nd table" where
  "makeTableDetails hs results = \<lparr>headings = hs, items = results\<rparr>"

definition makeListDetails :: "'nd table list \<Rightarrow> 'nd table list" where
  "makeListDetails ts = ts"

definition makeNodeItem :: "'nd \<Rightarrow> 'nd" where
  "makeNodeItem n = n"

definition str_icu :: "string \<Rightarrow> (string \<times> nat) list \<Rightarrow> lhString" where
  "str_icu message vals = Icu message vals"

section \<open>makePhaseTable\<close>

text \<open>
  Lines 71 and 72, the test of the loop:
  \<open>node.type === 'network' && node.record.requestId === lcpRecord.requestId\<close>.
\<close>

fun is_lcp_node :: "networkRecord \<Rightarrow> simulationNode \<Rightarrow> bool" where
  "is_lcp_node lcpRecord (NetworkNode r) = (requestId r = requestId lcpRecord)"
| "is_lcp_node lcpRecord CPUNode = False"

text \<open>
  Lines 70 to 76, the loop over \<open>metricResult.pessimisticEstimate.nodeTimings\<close>: the pair
  is \<open>(lcpLoadStartTs, lcpLoadEndTs)\<close>, \<open>None\<close> being \<open>undefined\<close>. The loop has no
  \<open>break\<close>, so a later matching node overwrites an earlier one.
\<close>

fun nodeTimings_loop ::
  "networkRecord \<Rightarrow> jsnum \<Rightarrow> (simulationNode \<times> nodeTiming) list \<Rightarrow>
   jsnum option \<times> jsnum option \<Rightarrow> jsnum option \<times> jsnum option" where
  "nodeTimings_loop lcpRecord timeOriginTs [] ts = ts"
| "nodeTimings_loop lcpRecord timeOriginTs ((n, t) # rest) ts =
     nodeTimings_loop lcpRecord timeOriginTs rest
       (if is_lcp_node lcpRecord n
        then (Some (js_add (js_mul (startTime t) (Fin 1000)) timeOriginTs),
              Some (js_add (js_mul (endTime t) (Fin 1000)) timeOriginTs))
        else ts)"

text \<open>Lines 64 to 80: the two load timestamps, from the simulation or from the record.\<close>

definition lcpLoadTs ::
  "networkRecord \<Rightarrow> jsnum \<Rightarrow> metricResult \<Rightarrow> jsnum option \<times> jsnum option" where
  "lcpLoadTs lcpRecord timeOriginTs metricResult =
     (case pessimisticEstimate metricResult of
        Some estimate \<Rightarrow>
          nodeTimings_loop lcpRecord timeOriginTs (nodeTimings estimate) (None, None)
      | None \<Rightarrow>
          (Some (js_mul (networkRequestTime lcpRecord) (Fin 1000)),
           Some (js_mul (networkEndTime lcpRecord) (Fin 1000))))"

text \<open>Lines 101 to 104, the headings of the phase table.\<close>

definition phase_headings :: "heading list" where
  "phase_headings =
     [\<lparr>key = ''phase'', valueType = ''text'', label = Literal ''Phase''\<rparr>,
      \<lparr>key = ''timing'', valueType = ''ms'', label = Literal ''Timing''\<rparr>]"

text \<open>Lines 87 to 98, the four durations and the rows \<open>details\<close> that carry them.\<close>

definition phaseDetails :: "jsnum \<Rightarrow> jsnum \<Rightarrow> jsnum \<Rightarrow> jsnum \<Rightarrow> jsnum \<Rightarrow> 'nd item list" where
  "phaseDetails timeOriginTs firstByteTs lcpLoadStartTs lcpLoadEndTs lcpTiming =
     (let ttfb = js_div_const (js_sub firstByteTs timeOriginTs) 1000;
          loadDelay = js_div_const (js_sub lcpLoadStartTs firstByteTs) 1000;
          loadTime = js_div_const (js_sub lcpLoadEndTs lcpLoadStartTs) 1000;
          renderDelay = js_sub (js_sub (js_sub lcpTiming loadTime) loadDelay) ttfb
      in [PhaseItem ''TTFB'' ttfb,
          PhaseItem ''Load Delay'' loadDelay,
          PhaseItem ''Load Time'' loadTime,
          PhaseItem ''Render Delay'' renderDelay])"

text \<open>
  Lines 58 to 106, what \<open>makePhaseTable\<close> does once the four computed artifacts have
  arrived; \<open>None\<close> is the bare \<open>return\<close>.
\<close>

definition makePhaseTable_body ::
  "networkRecord option \<Rightarrow> processedNavigation \<Rightarrow> metricResult \<Rightarrow> networkRecord \<Rightarrow>
   'nd table option" where
  "makePhaseTable_body lcpRecord processedNavigation metricResult mainResource =
     (case lcpRecord of
        None \<Rightarrow> None
      | Some lcpRecord \<Rightarrow>
          let timeOriginTs = timeOrigin (timestamps processedNavigation);
              firstByteTs = js_mul (responseHeadersEndTime mainResource) (Fin 1000)
          in case lcpLoadTs lcpRecord timeOriginTs metricResult of
               (Some lcpLoadStartTs, Some lcpLoadEndTs) \<Rightarrow>
                 if js_falsy lcpLoadStartTs \<or> js_falsy lcpLoadEndTs then None
                 else Some (makeTableDetails phase_headings
                              (phaseDetails timeOriginTs firstByteTs lcpLoadStartTs lcpLoadEndTs
                                 (timing metricResult)))
             | _ \<Rightarrow> None)"

text \<open>Lines 46 to 107. Each \<open>await\<close> passes an exception of the artifact on.\<close>

definition makePhaseTable ::
  "('tr, 'dl, 'gc, 'st, 'url) environment \<Rightarrow> ('tr, 'dl, 'gc, 'url, 'nd) artifacts \<Rightarrow> 'st auditContext \<Rightarrow>
   error + 'nd table option" where
  "makePhaseTable env artifacts context =
     (let trace = traces artifacts (DEFAULT_PASS env);
          devtoolsLog = devtoolsLogs artifacts (DEFAULT_PASS env);
          gatherContext = GatherContext artifacts;
          metricComputationData =
            MetricComputationData trace devtoolsLog gatherContext (settings context) (URL artifacts)
      in case NetworkRecords_request env devtoolsLog context of
           Inl err \<Rightarrow> Inl err
         | Inr networkRecords \<Rightarrow>
      case ProcessedNavigation_request env trace context of
           Inl err \<Rightarrow> Inl err
         | Inr processedNavigation \<Rightarrow>
      case LargestContentfulPaint_request env metricComputationData context of
           Inl err \<Rightarrow> Inl err
         | Inr metricResult \<Rightarrow>
      case MainResource_request env metricComputationData context of
           Inl err \<Rightarrow> Inl err
         | Inr mainResource \<Rightarrow>
      Inr (makePhaseTable_body (getLcpRecord env trace processedNavigation networkRecords)
             processedNavigation metricResult mainResource))"

section \<open>audit\<close>

text \<open>Lines 115 to 129: the table of the element, which depends on \<open>TraceElements\<close> only.\<close>

definition lcpElementDetails :: "'nd traceElement list \<Rightarrow> 'nd item list" where
  "lcpElementDetails traceElements =
     (case List.find (\<lambda>element. traceEventType element = ''largest-contentful-paint'')
             traceElements of
        None \<Rightarrow> []
      | Some lcpElement \<Rightarrow> [NodeItem (makeNodeItem (node lcpElement))])"

definition elementTable :: "'nd traceElement list \<Rightarrow> 'nd table" where
  "elementTable traceElements =
     makeTableDetails
       [\<lparr>key = ''node'', valueType = ''node'', label = str_icu ''columnElement'' []\<rparr>]
       (lcpElementDetails traceElements)"

text \<open>Lines 114 to 146.\<close>

definition audit ::
  "('tr, 'dl, 'gc, 'st, 'url) environment \<Rightarrow> ('tr, 'dl, 'gc, 'url, 'nd) artifacts \<Rightarrow> 'st auditContext \<Rightarrow>
   error + 'nd product" where
  "audit env artifacts context =
     (let rows = lcpElementDetails (TraceElements artifacts);
          tables = [elementTable (TraceElements artifacts)]
      in case makePhaseTable env artifacts context of
           Inl err \<Rightarrow> Inl err
         | Inr phaseTable \<Rightarrow>
             let tables' = (case phaseTable of None \<Rightarrow> tables | Some t \<Rightarrow> tables @ [t])
             in Inr \<lparr>score = Fin 1,
                     notApplicable = (length rows = 0),
                     displayValue = str_icu ''displayValueElementsFound'' [(''nodeCount'', length rows)],
                     details = makeListDetails tables'\<rparr>)"

section \<open>Notions used to state the properties\<close>

text \<open>\<open>!ts\<close> on a timestamp that may be \<open>undefined\<close>.\<close>

fun ts_unavailable :: "jsnum option \<Rightarrow> bool" where
  "ts_unavailable None = True"
| "ts_unavailable (Some ts) = js_falsy ts"

text \<open>An addition or a subtraction of two finite numbers that needs no rounding.\<close>

fun exact_add :: "jsnum \<Rightarrow> jsnum \<Rightarrow> bool" where
  "exact_add (Fin x) (Fin y) = (fl (x + y) = Fin (x + y))"
| "exact_add a b = False"

definition exact_sub :: "jsnum \<Rightarrow> jsnum \<Rightarrow> bool" where
  "exact_sub a b = exact_add a (js_neg b)"

text \<open>
  The four computed artifacts arrive, with these values, for the trace and the log of the
  default pass.
\<close>

definition delivered ::
  "('tr, 'dl, 'gc, 'st, 'url) environment \<Rightarrow> ('tr, 'dl, 'gc, 'url, 'nd) artifacts \<Rightarrow>
   'st auditContext \<Rightarrow> networkRecord list \<Rightarrow> processedNavigation \<Rightarrow> metricResult \<Rightarrow>
   networkRecord \<Rightarrow> bool" where
  "delivered env artifacts context networkRecords processedNavigation metricResult mainResource =
     (let trace = traces artifacts (DEFAULT_PASS env);
          devtoolsLog = devtoolsLogs artifacts (DEFAULT_PASS env);
          metricComputationData =
            MetricComputationData trace devtoolsLog (GatherContext artifacts) (settings context)
              (URL artifacts)
      in NetworkRecords_request env devtoolsLog context = Inr networkRecords \<and>
         ProcessedNavigation_request env trace context = Inr processedNavigation \<and>
         LargestContentfulPaint_request env metricComputationData context = Inr metricResult \<and>
         MainResource_request env metricComputationData context = Inr mainResource)"

text \<open>The LCP record that \<open>getLcpRecord\<close> resolves from the delivered artifacts.\<close>

definition resolved ::
  "('tr, 'dl, 'gc, 'st, 'url) environment \<Rightarrow> ('tr, 'dl, 'gc, 'url, 'nd) artifacts \<Rightarrow>
   processedNavigation \<Rightarrow> networkRecord list \<Rightarrow> networkRecord option" where
  "resolved env artifacts processedNavigation networkRecords =
     getLcpRecord env (traces artifacts (DEFAULT_PASS env)) processedNavigation networkRecords"

section \<open>Concrete page loads\<close>

text \<open>
  A page load is given by what the computed artifacts deliver: the navigation starts at
  \<open>origin\<close>, the headers of the document end at \<open>headersEnd\<close>, and the LCP image, when
  there is one, was requested at \<open>requested\<close> and ended at \<open>ended\<close>.
\<close>

definition document_record :: "rat \<Rightarrow> networkRecord" where
  "document_record headersEnd =
     \<lparr>requestId = ''1'', networkRequestTime = Fin 0, networkEndTime = Fin headersEnd,
      responseHeadersEndTime = Fin headersEnd\<rparr>"

definition image_record :: "rat \<Rightarrow> rat \<Rightarrow> networkRecord" where
  "image_record requested ended =
     \<lparr>requestId = ''2'', networkRequestTime = Fin requested, networkEndTime = Fin ended,
      responseHeadersEndTime = Fin requested\<rparr>"

definition navigation :: "rat \<Rightarrow> processedNavigation" where
  "navigation origin = \<lparr>timestamps = \<lparr>timeOrigin = Fin origin\<rparr>\<rparr>"

definition observed_metric :: "rat \<Rightarrow> metricResult" where
  "observed_metric lcp = \<lparr>timing = Fin lcp, pessimisticEstimate = None\<rparr>"

definition simulated_metric :: "rat \<Rightarrow> (simulationNode \<times> nodeTiming) list \<Rightarrow> metricResult" where
  "simulated_metric lcp ns =
     \<lparr>timing = Fin lcp, pessimisticEstimate = Some \<lparr>nodeTimings = ns\<rparr>\<rparr>"

definition page_environment ::
  "networkRecord list \<Rightarrow> processedNavigation \<Rightarrow> metricResult \<Rightarrow> networkRecord \<Rightarrow>
   networkRecord option \<Rightarrow> (unit, unit, unit, unit, unit) environment" where
  "page_environment networkRecords processedNavigation metricResult mainResource lcpRecord =
     \<lparr>DEFAULT_PASS = ''defaultPass'',
      NetworkRecords_request = (\<lambda>devtoolsLog context. Inr networkRecords),
      ProcessedNavigation_request = (\<lambda>trace context. Inr processedNavigation),
      LargestContentfulPaint_request = (\<lambda>data context. Inr metricResult),
      MainResource_request = (\<lambda>data context. Inr mainResource),
      getLcpRecord = (\<lambda>trace nav records. lcpRecord)\<rparr>"

definition page_artifacts ::
  "string traceElement list \<Rightarrow> (unit, unit, unit, unit, string) artifacts" where
  "page_artifacts traceElements =
     \<lparr>traces = [''defaultPass'' \<mapsto> ()], devtoolsLogs = [''defaultPass'' \<mapsto> ()],
      GatherContext = (), URL = (), TraceElements = traceElements\<rparr>"

definition page_context :: "unit auditContext" where
  "page_context = \<lparr>settings = ()\<rparr>"

text \<open>The element that the trace marks as the largest contentful paint.\<close>

definition lcp_element :: "string traceElement" where
  "lcp_element = \<lparr>traceEventType = ''largest-contentful-paint'', node = ''img.hero''\<rparr>"

section \<open>Facts about the rounding\<close>

lemma bitlen_powi_bounds:
  assumes "0 < p"
  shows "(2::rat) powi (bitlen p - 1) \<le> of_int p" and "of_int p < (2::rat) powi bitlen p"
proof -
  from assms have b1: "1 \<le> bitlen p" by (auto simp: bitlen_alt_def)
  from bitlen_bounds [OF assms]
  have lo: "2 ^ nat (bitlen p - 1) \<le> p" and hi: "p < 2 ^ nat (bitlen p)" by auto
  have "(2::rat) powi (bitlen p - 1) = of_int (2 ^ nat (bitlen p - 1))"
    using b1 by (simp add: power_int_def)
  also have "\<dots> \<le> of_int p" using lo by (simp only: of_int_le_iff)
  finally show "(2::rat) powi (bitlen p - 1) \<le> of_int p" .
  have "(of_int p :: rat) < of_int (2 ^ nat (bitlen p))" using hi by (simp only: of_int_less_iff)
  also have "\<dots> = (2::rat) powi bitlen p" using b1 by (simp add: power_int_def)
  finally show "of_int p < (2::rat) powi bitlen p" .
qed

lemma binade_bounds:
  assumes "x \<noteq> 0"
  shows "2 powi binade x \<le> \<bar>x\<bar>" and "\<bar>x\<bar> < 2 powi (binade x + 1)"
proof -
  obtain p q where pq: "quotient_of \<bar>x\<bar> = (p, q)" by (cases "quotient_of \<bar>x\<bar>")
  have q: "0 < q" using pq by (rule quotient_of_denom_pos)
  have y: "\<bar>x\<bar> = of_int p / of_int q" using pq by (rule quotient_of_div)
  have "0 < \<bar>x\<bar>" using assms by simp
  with y q have p: "0 < p" by (simp add: zero_less_divide_iff)
  define k where "k = bitlen p - bitlen q"
  have qr: "(0::rat) < of_int q" using q by simp
  have up: "\<bar>x\<bar> < 2 powi (k + 1)"
  proof -
    have "of_int p < (2::rat) powi bitlen p" using p by (rule bitlen_powi_bounds)
    also have "\<dots> = 2 powi (k + 1) * 2 powi (bitlen q - 1)"
      by (simp add: k_def power_int_add [symmetric])
    also have "\<dots> \<le> 2 powi (k + 1) * of_int q"
      using bitlen_powi_bounds(1) [OF q] by (intro mult_left_mono) auto
    finally show ?thesis using qr by (simp add: y pos_divide_less_eq)
  qed
  have lo: "2 powi (k - 1) \<le> \<bar>x\<bar>"
  proof -
    have "(2::rat) powi (k - 1) * of_int q \<le> 2 powi (k - 1) * 2 powi bitlen q"
      using bitlen_powi_bounds(2) [OF q] by (intro mult_left_mono) auto
    also have "\<dots> = 2 powi (bitlen p - 1)"
      by (simp add: k_def power_int_add [symmetric])
    also have "\<dots> \<le> of_int p" using p by (rule bitlen_powi_bounds)
    finally show ?thesis using qr by (simp add: y pos_le_divide_eq)
  qed
  have b: "binade x = (if \<bar>x\<bar> < 2 powi k then k - 1 else k)"
    by (simp add: binade_def pq k_def Let_def)
  show "2 powi binade x \<le> \<bar>x\<bar>" using lo by (simp add: b)
  show "\<bar>x\<bar> < 2 powi (binade x + 1)" using up by (simp add: b)
qed

lemma powi_less_cancel: "(2::rat) powi a < 2 powi b \<Longrightarrow> a < b"
proof (rule ccontr)
  assume h: "(2::rat) powi a < 2 powi b" and "\<not> a < b"
  then have "b \<le> a" by simp
  then have "(2::rat) powi b \<le> 2 powi a" by (intro power_int_increasing) simp_all
  with h show False by simp
qed

lemma binade_eqI:
  assumes "2 powi b \<le> \<bar>x\<bar>" and "\<bar>x\<bar> < 2 powi (b + 1)"
  shows "binade x = b"
proof -
  have "(0::rat) < 2 powi b" by simp
  also note assms(1)
  finally have nz: "x \<noteq> 0" by simp
  have "(2::rat) powi b < 2 powi (binade x + 1)"
    using assms(1) binade_bounds(2) [OF nz] by simp
  then have 1: "b < binade x + 1" by (rule powi_less_cancel)
  have "(2::rat) powi binade x < 2 powi (b + 1)"
    using assms(2) binade_bounds(1) [OF nz] by simp
  then have 2: "binade x < b + 1" by (rule powi_less_cancel)
  from 1 2 show ?thesis by simp
qed


lemma round_half_even_of_int: "round_half_even (of_int m) = m"
  by (simp add: round_half_even_def)

lemma fl_eqI:
  assumes "2 powi b \<le> \<bar>x\<bar>" and "\<bar>x\<bar> < 2 powi (b + 1)"
    and "r = of_int (round_half_even (x / 2 powi (max b (- 1022) - 52))) * 2 powi (max b (- 1022) - 52)"
    and "\<bar>r\<bar> < 2 ^ 1024"
  shows "fl x = Fin r"
proof -
  have "(0::rat) < 2 powi b" by simp
  also note assms(1)
  finally have nz: "x \<noteq> 0" by simp
  have "binade x = b" using assms(1,2) by (rule binade_eqI)
  then show ?thesis using nz assms(3,4) by (simp add: fl_def Let_def)
qed

lemma fl_representable:
  assumes m: "\<bar>m\<bar> < 2 ^ 53" and e: "- 1074 \<le> e"
    and x: "x = of_int m * 2 powi e" and fin: "\<bar>x\<bar> < 2 ^ 1024"
  shows "fl x = Fin x"
proof (cases "x = 0")
  case True
  then show ?thesis by (simp add: fl_def)
next
  case False
  define E where "E = max (binade x) (- 1022) - 52"
  have "2 powi binade x \<le> \<bar>x\<bar>" using False by (rule binade_bounds)
  also have "\<bar>x\<bar> = of_int \<bar>m\<bar> * 2 powi e" by (simp add: x abs_mult)
  also have "\<dots> < of_int (2 ^ 53) * 2 powi e"
  proof (rule mult_strict_right_mono)
    show "(of_int \<bar>m\<bar> :: rat) < of_int (2 ^ 53)" using m by (simp only: of_int_less_iff)
    show "(0::rat) < 2 powi e" by simp
  qed
  also have "\<dots> = 2 powi (53 + e)" by (simp add: power_int_add)
  finally have "binade x < 53 + e" by (rule powi_less_cancel)
  with e have le: "E \<le> e" by (simp add: E_def)
  have "x / 2 powi E = of_int m * 2 powi (e - E)" by (simp add: x power_int_diff)
  also have "\<dots> = of_int (m * 2 ^ nat (e - E))"
    using le by (simp add: power_int_def)
  finally have "round_half_even (x / 2 powi E) = m * 2 ^ nat (e - E)"
    by (simp only: round_half_even_of_int)
  then have "of_int (round_half_even (x / 2 powi E)) * 2 powi E = (of_int m :: rat) * (2 powi (e - E) * 2 powi E)"
    using le by (simp add: power_int_def)
  also have "\<dots> = x" by (simp add: x power_int_add [symmetric])
  finally have r: "of_int (round_half_even (x / 2 powi E)) * 2 powi E = x" .
  show ?thesis using False fin r by (simp add: fl_def Let_def E_def [symmetric])
qed

lemma fl_of_int: "\<bar>n\<bar> < 2 ^ 53 \<Longrightarrow> fl (of_int n) = Fin (of_int n)"
proof -
  assume n: "\<bar>n\<bar> < 2 ^ 53"
  have "\<bar>of_int n :: rat\<bar> = of_int \<bar>n\<bar>" by simp
  also have "\<dots> < of_int (2 ^ 53)" using n by (simp only: of_int_less_iff)
  also have "\<dots> < 2 ^ 1024" by simp
  finally have "\<bar>of_int n :: rat\<bar> < 2 ^ 1024" .
  with n show ?thesis by (intro fl_representable [where m = n and e = 0]) simp_all
qed

lemma floor_rat_numeral_divide:
  "\<lfloor>(numeral a :: rat) / numeral b\<rfloor> = numeral a div numeral b"
  using floor_divide_of_int_eq [of "numeral a" "numeral b", where ?'a = rat] by simp

lemma floor_rat_neg_numeral_divide:
  "\<lfloor>- ((numeral a :: rat) / numeral b)\<rfloor> = - numeral a div numeral b"
  using floor_divide_of_int_eq [of "- numeral a" "numeral b", where ?'a = rat] by simp

lemmas fl_eval = round_half_even_def Let_def floor_rat_numeral_divide floor_rat_neg_numeral_divide

lemma fl_zero: "fl 0 = Fin 0"
  by (simp add: fl_def)

lemma fl_one: "fl 1 = Fin 1"
  using fl_of_int [of 1] by simp

lemma fl_minus_one: "fl (- 1) = Fin (- 1)"
  using fl_of_int [of "- 1"] by simp

lemma fl_numeral: "numeral k < (2::int) ^ 53 \<Longrightarrow> fl (numeral k) = Fin (numeral k)"
  using fl_of_int [of "numeral k"] by simp

lemma fl_neg_numeral: "numeral k < (2::int) ^ 53 \<Longrightarrow> fl (- numeral k) = Fin (- numeral k)"
  using fl_of_int [of "- numeral k"] by simp

lemmas fl_small = fl_zero fl_one fl_minus_one fl_numeral fl_neg_numeral

text \<open>A finite result lies within half a unit in the last place of the exact value.\<close>

lemma round_half_even_near: "\<bar>of_int (round_half_even q) - q\<bar> \<le> 1 / 2"
proof -
  define f where "f = \<lfloor>q\<rfloor>"
  have lo: "of_int f \<le> q" and hi: "q < of_int f + 1"
    unfolding f_def by linarith+
  show ?thesis
    using lo hi by (auto simp: round_half_even_def Let_def f_def [symmetric] abs_if)
qed

lemma fl_nearest:
  assumes "fl x = Fin r"
  shows "\<bar>r - x\<bar> \<le> 2 powi (max (binade x) (- 1022) - 53)"
proof (cases "x = 0")
  case True
  with assms show ?thesis by (simp add: fl_def)
next
  case False
  define e where "e = max (binade x) (- 1022) - 52"
  define q where "q = x / 2 powi e"
  have x: "x = q * 2 powi e" by (simp add: q_def)
  from assms False have r: "r = of_int (round_half_even q) * 2 powi e"
    by (simp add: fl_def Let_def e_def [symmetric] q_def [symmetric] split: if_splits)
  have "r - x = (of_int (round_half_even q) - q) * 2 powi e"
    by (subst x) (simp add: r left_diff_distrib)
  then have "\<bar>r - x\<bar> = \<bar>of_int (round_half_even q) - q\<bar> * 2 powi e"
    by (simp add: abs_mult)
  also have "\<dots> \<le> 1 / 2 * 2 powi e"
    by (intro mult_right_mono round_half_even_near) simp
  also have "\<dots> = 2 powi (e - 1)"
    by (simp add: power_int_diff)
  finally show ?thesis by (simp add: e_def)
qed

section \<open>Facts about the model\<close>

lemma makePhaseTable_body_None: "makePhaseTable_body None pn mr main = None"
  by (simp add: makePhaseTable_body_def)

lemma makePhaseTable_body_Some:
  assumes "lcpLoadTs r (timeOrigin (timestamps pn)) mr = (Some s, Some e)"
    and "\<not> js_falsy s" and "\<not> js_falsy e"
  shows "makePhaseTable_body (Some r) pn mr main =
           Some (makeTableDetails phase_headings
                   (phaseDetails (timeOrigin (timestamps pn))
                      (js_mul (responseHeadersEndTime main) (Fin 1000)) s e (timing mr)))"
  using assms by (simp add: makePhaseTable_body_def Let_def)

lemma makePhaseTable_body_SomeD:
  assumes "makePhaseTable_body lcp pn mr main = Some tbl"
  shows "\<exists>r s e. lcp = Some r \<and>
           lcpLoadTs r (timeOrigin (timestamps pn)) mr = (Some s, Some e) \<and>
           \<not> js_falsy s \<and> \<not> js_falsy e \<and>
           tbl = makeTableDetails phase_headings
                   (phaseDetails (timeOrigin (timestamps pn))
                      (js_mul (responseHeadersEndTime main) (Fin 1000)) s e (timing mr))"
  using assms
  by (auto simp: makePhaseTable_body_def Let_def split: option.splits prod.splits if_splits)

lemma makePhaseTable_body_eq_None_iff:
  "makePhaseTable_body (Some r) pn mr main = None \<longleftrightarrow>
     ts_unavailable (fst (lcpLoadTs r (timeOrigin (timestamps pn)) mr)) \<or>
     ts_unavailable (snd (lcpLoadTs r (timeOrigin (timestamps pn)) mr))"
  by (auto simp: makePhaseTable_body_def Let_def split: option.splits prod.splits if_splits)

lemma makePhaseTable_delivered:
  assumes "delivered env a c nr pn mr main"
  shows "makePhaseTable env a c = Inr (makePhaseTable_body (resolved env a pn nr) pn mr main)"
  using assms by (simp add: delivered_def makePhaseTable_def resolved_def Let_def)

lemma makePhaseTable_InrD:
  assumes "makePhaseTable env a c = Inr res"
  shows "\<exists>nr pn mr main. delivered env a c nr pn mr main \<and>
           res = makePhaseTable_body (resolved env a pn nr) pn mr main"
  using assms
  by (auto simp: delivered_def makePhaseTable_def resolved_def Let_def split: sum.splits)

lemma delivered_unique:
  assumes "delivered env a c nr pn mr main" and "delivered env a c nr' pn' mr' main'"
  shows "nr' = nr \<and> pn' = pn \<and> mr' = mr \<and> main' = main"
  using assms by (simp add: delivered_def Let_def)

lemma audit_delivered:
  assumes "delivered env a c nr pn mr main"
  shows "audit env a c =
           Inr \<lparr>score = Fin 1,
                notApplicable = (lcpElementDetails (TraceElements a) = []),
                displayValue = str_icu ''displayValueElementsFound''
                                 [(''nodeCount'', length (lcpElementDetails (TraceElements a)))],
                details = elementTable (TraceElements a) #
                  (case makePhaseTable_body (resolved env a pn nr) pn mr main of
                     None \<Rightarrow> [] | Some t \<Rightarrow> [t])\<rparr>"
  using makePhaseTable_delivered [OF assms]
  by (simp add: audit_def Let_def makeListDetails_def split: option.splits)

lemma page_delivered:
  "delivered (page_environment nr pn mr main lcp) (page_artifacts te) page_context nr pn mr main"
  by (simp add: delivered_def page_environment_def Let_def)

lemma page_resolved:
  "resolved (page_environment nr pn mr main lcp) a pn' nr' = lcp"
  by (simp add: resolved_def page_environment_def)

lemma nodeTimings_loop_append:
  "nodeTimings_loop r t0 (xs @ ys) ts = nodeTimings_loop r t0 ys (nodeTimings_loop r t0 xs ts)"
  by (induction xs arbitrary: ts) auto

lemma nodeTimings_loop_find:
  "nodeTimings_loop r t0 ns ts =
     (case List.find (\<lambda>(n, t). is_lcp_node r n) (rev ns) of
        None \<Rightarrow> ts
      | Some (n, t) \<Rightarrow>
          (Some (js_add (js_mul (startTime t) (Fin 1000)) t0),
           Some (js_add (js_mul (endTime t) (Fin 1000)) t0)))"
proof (induction ns arbitrary: ts rule: rev_induct)
  case Nil
  then show ?case by simp
next
  case (snoc x xs)
  obtain n t where x: "x = (n, t)" by (cases x)
  show ?case
    by (simp add: nodeTimings_loop_append x snoc.IH)
qed

section \<open>Concrete page loads, evaluated\<close>

lemma page_makePhaseTable:
  "makePhaseTable (page_environment nr pn mr main lcp) (page_artifacts te) page_context =
     Inr (makePhaseTable_body lcp pn mr main)"
  using makePhaseTable_delivered [OF page_delivered, of nr pn mr main lcp te]
  by (simp add: page_resolved)

lemmas page_defs =
  image_record_def document_record_def navigation_def observed_metric_def simulated_metric_def

lemmas body_defs =
  makePhaseTable_body_def lcpLoadTs_def phaseDetails_def makeTableDetails_def js_sub_def Let_def

text \<open>
  Navigation at 1000, headers of the document at 2, the image from 3 to 5, LCP at 7, all
  observed: every operation is exact.
\<close>

lemma observed_page_body:
  "makePhaseTable_body (Some (image_record 3 5)) (navigation 1000) (observed_metric 7)
       (document_record 2) =
     Some \<lparr>headings = phase_headings,
           items = [PhaseItem ''TTFB'' (Fin 1), PhaseItem ''Load Delay'' (Fin 1),
                    PhaseItem ''Load Time'' (Fin 2), PhaseItem ''Render Delay'' (Fin 3)]\<rparr>"
  by (simp add: body_defs page_defs fl_small)

text \<open>The same load simulated: the node of the image runs from 2 to 4 after the origin.\<close>

lemma simulated_page_body:
  "makePhaseTable_body (Some (image_record 3 5)) (navigation 1000)
       (simulated_metric 7
          [(CPUNode, \<lparr>startTime = Fin 0, endTime = Fin 1\<rparr>),
           (NetworkNode (image_record 0 0), \<lparr>startTime = Fin 2, endTime = Fin 4\<rparr>)])
       (document_record 2) =
     Some \<lparr>headings = phase_headings,
           items = [PhaseItem ''TTFB'' (Fin 1), PhaseItem ''Load Delay'' (Fin 1),
                    PhaseItem ''Load Time'' (Fin 2), PhaseItem ''Render Delay'' (Fin 3)]\<rparr>"
  by (simp add: body_defs page_defs fl_small)

section \<open>A load whose durations are rounded\<close>

text \<open>
  Navigation at 1, headers of the document at 1, the image from 2 to 5, LCP at 5. The
  quotient 999 / 1000 is no binary64 number, and the roundings do not cancel.
\<close>

lemma fl_999_1000: "fl (999 / 1000) = Fin (8998192055486251 / 9007199254740992)"
  by (rule fl_eqI [where b = "- 1"]) (simp_all add: fl_eval)

lemma fl_residual:
  "fl (9007199254741 / 9007199254740992) = Fin (9007199254741 / 9007199254740992)"
  by (rule fl_eqI [where b = "- 10"]) (simp_all add: fl_eval)

lemma fl_sum_1:
  "fl (18005391310227243 / 9007199254740992) = Fin (4501347827556811 / 2251799813685248)"
  by (rule fl_eqI [where b = 0]) (simp_all add: fl_eval)

lemma fl_sum_2:
  "fl (11256747268612555 / 2251799813685248) = Fin (2814186817153139 / 562949953421312)"
  by (rule fl_eqI [where b = 2]) (simp_all add: fl_eval)

lemma fl_sum_3:
  "fl (45035996273704965 / 9007199254740992) = Fin (5629499534213121 / 1125899906842624)"
  by (rule fl_eqI [where b = 2]) (simp_all add: fl_eval)

lemmas fl_rounded = fl_999_1000 fl_residual fl_sum_1 fl_sum_2 fl_sum_3

lemma rounded_page_body:
  "makePhaseTable_body (Some (image_record 2 5)) (navigation 1) (observed_metric 5)
       (document_record 1) =
     Some \<lparr>headings = phase_headings,
           items = [PhaseItem ''TTFB'' (Fin (8998192055486251 / 9007199254740992)),
                    PhaseItem ''Load Delay'' (Fin 1),
                    PhaseItem ''Load Time'' (Fin 3),
                    PhaseItem ''Render Delay'' (Fin (9007199254741 / 9007199254740992))]\<rparr>"
  by (simp add: body_defs page_defs fl_small fl_rounded)

section \<open>Sums without rounding\<close>

lemma exact_addD:
  assumes "exact_add a b"
  shows "\<exists>x y. a = Fin x \<and> b = Fin y \<and> js_add a b = Fin (x + y)"
  using assms by (cases a; cases b) simp_all

lemma exact_subD:
  assumes "exact_sub a b"
  shows "\<exists>x y. a = Fin x \<and> b = Fin y \<and> js_sub a b = Fin (x - y)"
  using assms by (cases a; cases b) (simp_all add: exact_sub_def js_sub_def)

lemma unrounded_sum:
  assumes T: "is_double T"
    and s1: "exact_sub T l" and s2: "exact_sub (js_sub T l) d"
    and s3: "exact_sub (js_sub (js_sub T l) d) f"
    and a1: "exact_add f d" and a2: "exact_add (js_add f d) l"
  shows "js_add (js_add (js_add f d) l) (js_sub (js_sub (js_sub T l) d) f) = T"
proof -
  from exact_subD [OF s1] obtain t x where t: "T = Fin t" and l: "l = Fin x"
    and 1: "js_sub T l = Fin (t - x)" by blast
  from exact_subD [OF s2] 1 obtain y where d: "d = Fin y"
    and 2: "js_sub (js_sub T l) d = Fin (t - x - y)" by auto
  from exact_subD [OF s3] 2 obtain z where f: "f = Fin z"
    and 3: "js_sub (js_sub (js_sub T l) d) f = Fin (t - x - y - z)" by auto
  from exact_addD [OF a1] f d have 4: "js_add f d = Fin (z + y)" by auto
  from exact_addD [OF a2] 4 l have 5: "js_add (js_add f d) l = Fin (z + y + x)" by auto
  have "js_add (js_add (js_add f d) l) (js_sub (js_sub (js_sub T l) d) f) =
      js_add (Fin (z + y + x)) (Fin (t - x - y - z))"
    by (simp only: 3 5)
  also have "\<dots> = fl t" by simp
  also have "\<dots> = T" using T t by simp
  finally show ?thesis .
qed

section \<open>A load whose document answers before the navigation starts\<close>

text \<open>
  Navigation at 2000, headers of the document at 1, the image from 3 to 5, LCP at 7: the
  first byte, at 1000, lies before the time origin.
\<close>

lemma early_page_body:
  "makePhaseTable_body (Some (image_record 3 5)) (navigation 2000) (observed_metric 7)
       (document_record 1) =
     Some \<lparr>headings = phase_headings,
           items = [PhaseItem ''TTFB'' (Fin (- 1)), PhaseItem ''Load Delay'' (Fin 2),
                    PhaseItem ''Load Time'' (Fin 2), PhaseItem ''Render Delay'' (Fin 4)]\<rparr>"
  by (simp add: body_defs page_defs fl_small)

section \<open>The claims\<close>

text \<open>
  C1, as the code has it. The render delay is the residual
  \<open>timing - loadTime - loadDelay - ttfb\<close> in binary64 arithmetic, and the four durations
  add up to \<open>metricResult.timing\<close> whenever none of the three subtractions and of the
  additions of the sum is rounded.
\<close>

theorem phases_sum_to_timing_unless_rounded:
  assumes "delivered env a c nr pn mr main" and "makePhaseTable env a c = Inr (Some tbl)"
    and "items tbl =
           [PhaseItem n1 ttfb, PhaseItem n2 loadDelay, PhaseItem n3 loadTime,
            PhaseItem n4 renderDelay]"
  shows "renderDelay = js_sub (js_sub (js_sub (timing mr) loadTime) loadDelay) ttfb \<and>
         (is_double (timing mr) \<and>
          exact_sub (timing mr) loadTime \<and>
          exact_sub (js_sub (timing mr) loadTime) loadDelay \<and>
          exact_sub (js_sub (js_sub (timing mr) loadTime) loadDelay) ttfb \<and>
          exact_add ttfb loadDelay \<and>
          exact_add (js_add ttfb loadDelay) loadTime \<longrightarrow>
            js_add (js_add (js_add ttfb loadDelay) loadTime) renderDelay = timing mr)"
proof -
  from makePhaseTable_delivered [OF assms(1)] assms(2)
  have "makePhaseTable_body (resolved env a pn nr) pn mr main = Some tbl" by simp
  from makePhaseTable_body_SomeD [OF this] obtain s e
    where "tbl = makeTableDetails phase_headings
                   (phaseDetails (timeOrigin (timestamps pn))
                      (js_mul (responseHeadersEndTime main) (Fin 1000)) s e (timing mr))"
    by blast
  with assms(3)
  have r: "renderDelay = js_sub (js_sub (js_sub (timing mr) loadTime) loadDelay) ttfb"
    by (auto simp: makeTableDetails_def phaseDetails_def Let_def)
  show ?thesis
  proof (intro conjI impI)
    show "renderDelay = js_sub (js_sub (js_sub (timing mr) loadTime) loadDelay) ttfb"
      by (rule r)
  next
    assume "is_double (timing mr) \<and>
          exact_sub (timing mr) loadTime \<and>
          exact_sub (js_sub (timing mr) loadTime) loadDelay \<and>
          exact_sub (js_sub (js_sub (timing mr) loadTime) loadDelay) ttfb \<and>
          exact_add ttfb loadDelay \<and>
          exact_add (js_add ttfb loadDelay) loadTime"
    then show "js_add (js_add (js_add ttfb loadDelay) loadTime) renderDelay = timing mr"
      unfolding r by (intro unrounded_sum) simp_all
  qed
qed

text \<open>The observed load of whole milliseconds: nothing is rounded and the sum is 7.\<close>

theorem phases_sum_to_timing_unless_rounded_witness:
  "makePhaseTable
       (page_environment [document_record 2, image_record 3 5] (navigation 1000)
          (observed_metric 7) (document_record 2) (Some (image_record 3 5)))
       (page_artifacts [lcp_element]) page_context =
     Inr (Some \<lparr>headings = phase_headings,
                items = [PhaseItem ''TTFB'' (Fin 1), PhaseItem ''Load Delay'' (Fin 1),
                         PhaseItem ''Load Time'' (Fin 2), PhaseItem ''Render Delay'' (Fin 3)]\<rparr>) \<and>
   is_double (Fin 7) \<and> exact_sub (Fin 7) (Fin 2) \<and> exact_sub (js_sub (Fin 7) (Fin 2)) (Fin 1) \<and>
   exact_sub (js_sub (js_sub (Fin 7) (Fin 2)) (Fin 1)) (Fin 1) \<and>
   exact_add (Fin 1) (Fin 1) \<and> exact_add (js_add (Fin 1) (Fin 1)) (Fin 2) \<and>
   js_add (js_add (js_add (Fin 1) (Fin 1)) (Fin 2)) (Fin 3) = Fin 7"
proof -
  have h: "makePhaseTable
       (page_environment [document_record 2, image_record 3 5] (navigation 1000)
          (observed_metric 7) (document_record 2) (Some (image_record 3 5)))
       (page_artifacts [lcp_element]) page_context =
     Inr (Some \<lparr>headings = phase_headings,
                items = [PhaseItem ''TTFB'' (Fin 1), PhaseItem ''Load Delay'' (Fin 1),
                         PhaseItem ''Load Time'' (Fin 2), PhaseItem ''Render Delay'' (Fin 3)]\<rparr>)"
    by (simp only: page_makePhaseTable observed_page_body)
  have i: "items \<lparr>headings = phase_headings,
                items = [PhaseItem ''TTFB'' (Fin 1), PhaseItem ''Load Delay'' (Fin 1),
                         PhaseItem ''Load Time'' (Fin 2),
                         PhaseItem ''Render Delay'' (Fin 3) :: string item]\<rparr> =
      [PhaseItem ''TTFB'' (Fin 1), PhaseItem ''Load Delay'' (Fin 1),
       PhaseItem ''Load Time'' (Fin 2), PhaseItem ''Render Delay'' (Fin 3)]"
    by simp
  have x: "is_double (Fin 7)" "exact_sub (Fin 7) (Fin 2)"
    "exact_sub (js_sub (Fin 7) (Fin 2)) (Fin 1)"
    "exact_sub (js_sub (js_sub (Fin 7) (Fin 2)) (Fin 1)) (Fin 1)"
    "exact_add (Fin 1) (Fin 1)" "exact_add (js_add (Fin 1) (Fin 1)) (Fin 2)"
    by (simp_all add: exact_sub_def js_sub_def fl_small)
  have t: "timing (observed_metric 7) = Fin 7" by (simp add: observed_metric_def)
  from phases_sum_to_timing_unless_rounded [OF page_delivered h i, unfolded t] x
  have "js_add (js_add (js_add (Fin 1) (Fin 1)) (Fin 2)) (Fin 3) = Fin 7" by blast
  with h x show ?thesis by blast
qed

text \<open>
  C1, as the spec states it, fails. With the navigation at 1, the headers of the document
  at 1, the image from 2 to 5 and the LCP at 5, all of them binary64 numbers, the table is
  produced, its durations are those of the JavaScript run (0.999, 1, 3,
  0.0010000000000000009), and their sum is 5.000000000000001 and not the timing 5.
\<close>

theorem phases_sum_differs_from_timing:
  "is_double (Fin 1) \<and> is_double (Fin 2) \<and> is_double (Fin 5) \<and>
   makePhaseTable
       (page_environment [document_record 1, image_record 2 5] (navigation 1)
          (observed_metric 5) (document_record 1) (Some (image_record 2 5)))
       (page_artifacts [lcp_element]) page_context =
     Inr (Some \<lparr>headings = phase_headings,
                items = [PhaseItem ''TTFB'' (Fin (8998192055486251 / 9007199254740992)),
                         PhaseItem ''Load Delay'' (Fin 1),
                         PhaseItem ''Load Time'' (Fin 3),
                         PhaseItem ''Render Delay''
                           (Fin (9007199254741 / 9007199254740992))]\<rparr>) \<and>
   timing (observed_metric 5) = Fin 5 \<and>
   js_add (js_add (js_add (Fin (8998192055486251 / 9007199254740992)) (Fin 1)) (Fin 3))
     (Fin (9007199254741 / 9007199254740992)) =
     Fin (5629499534213121 / 1125899906842624) \<and>
   Fin (5629499534213121 / 1125899906842624) \<noteq> Fin 5"
proof -
  have "is_double (Fin 1)" "is_double (Fin 2)" "is_double (Fin 5)"
    by (simp_all add: fl_small)
  moreover have "makePhaseTable
       (page_environment [document_record 1, image_record 2 5] (navigation 1)
          (observed_metric 5) (document_record 1) (Some (image_record 2 5)))
       (page_artifacts [lcp_element]) page_context =
     Inr (Some \<lparr>headings = phase_headings,
                items = [PhaseItem ''TTFB'' (Fin (8998192055486251 / 9007199254740992)),
                         PhaseItem ''Load Delay'' (Fin 1),
                         PhaseItem ''Load Time'' (Fin 3),
                         PhaseItem ''Render Delay''
                           (Fin (9007199254741 / 9007199254740992))]\<rparr>)"
    by (simp only: page_makePhaseTable rounded_page_body)
  moreover have "timing (observed_metric 5) = Fin 5"
    by (simp add: observed_metric_def)
  moreover have "js_add
      (js_add (js_add (Fin (8998192055486251 / 9007199254740992)) (Fin 1)) (Fin 3))
     (Fin (9007199254741 / 9007199254740992)) =
     Fin (5629499534213121 / 1125899906842624)"
    by (simp add: fl_rounded)
  moreover have "Fin (5629499534213121 / 1125899906842624) \<noteq> Fin 5"
    by simp
  ultimately show ?thesis by blast
qed

text \<open>
  C2, as the code has it. With the artifacts delivered, the phase table is omitted exactly
  when no LCP record is resolved or \<open>lcpLoadStartTs\<close> or \<open>lcpLoadEndTs\<close> is undefined, zero
  or NaN. Otherwise the table is produced with the durations as computed: their sign is
  not looked at.
\<close>

theorem phase_table_omitted_iff:
  assumes "delivered env a c nr pn mr main"
  shows "(makePhaseTable env a c = Inr None \<longleftrightarrow>
            (case resolved env a pn nr of
               None \<Rightarrow> True
             | Some r \<Rightarrow>
                 ts_unavailable (fst (lcpLoadTs r (timeOrigin (timestamps pn)) mr)) \<or>
                 ts_unavailable (snd (lcpLoadTs r (timeOrigin (timestamps pn)) mr)))) \<and>
         (resolved env a pn nr = Some r \<and>
          lcpLoadTs r (timeOrigin (timestamps pn)) mr = (Some s, Some e) \<and>
          \<not> js_falsy s \<and> \<not> js_falsy e \<longrightarrow>
            makePhaseTable env a c =
              Inr (Some (makeTableDetails phase_headings
                           (phaseDetails (timeOrigin (timestamps pn))
                              (js_mul (responseHeadersEndTime main) (Fin 1000)) s e
                              (timing mr)))))"
proof (intro conjI impI)
  show "makePhaseTable env a c = Inr None \<longleftrightarrow>
            (case resolved env a pn nr of
               None \<Rightarrow> True
             | Some r \<Rightarrow>
                 ts_unavailable (fst (lcpLoadTs r (timeOrigin (timestamps pn)) mr)) \<or>
                 ts_unavailable (snd (lcpLoadTs r (timeOrigin (timestamps pn)) mr)))"
    by (simp add: makePhaseTable_delivered [OF assms] makePhaseTable_body_None
        makePhaseTable_body_eq_None_iff split: option.splits)
next
  assume "resolved env a pn nr = Some r \<and>
          lcpLoadTs r (timeOrigin (timestamps pn)) mr = (Some s, Some e) \<and>
          \<not> js_falsy s \<and> \<not> js_falsy e"
  then show "makePhaseTable env a c =
              Inr (Some (makeTableDetails phase_headings
                           (phaseDetails (timeOrigin (timestamps pn))
                              (js_mul (responseHeadersEndTime main) (Fin 1000)) s e
                              (timing mr))))"
    by (simp add: makePhaseTable_delivered [OF assms] makePhaseTable_body_Some)
qed

text \<open>
  The load whose document answers before the navigation starts: both timestamps are there,
  and the table carries a TTFB of -1.
\<close>

theorem phase_table_omitted_iff_witness:
  "lcpLoadTs (image_record 3 5) (timeOrigin (timestamps (navigation 2000))) (observed_metric 7) =
     (Some (Fin 3000), Some (Fin 5000)) \<and>
   makePhaseTable
       (page_environment [document_record 1, image_record 3 5] (navigation 2000)
          (observed_metric 7) (document_record 1) (Some (image_record 3 5)))
       (page_artifacts [lcp_element]) page_context \<noteq> Inr None \<and>
   makePhaseTable
       (page_environment [document_record 1, image_record 3 5] (navigation 2000)
          (observed_metric 7) (document_record 1) (Some (image_record 3 5)))
       (page_artifacts [lcp_element]) page_context =
     Inr (Some (makeTableDetails phase_headings
                  (phaseDetails (Fin 2000) (Fin 1000) (Fin 3000) (Fin 5000) (Fin 7))))"
proof -
  have l: "lcpLoadTs (image_record 3 5) (timeOrigin (timestamps (navigation 2000)))
      (observed_metric 7) = (Some (Fin 3000), Some (Fin 5000))"
    by (simp add: lcpLoadTs_def page_defs fl_small)
  have v: "timeOrigin (timestamps (navigation 2000)) = Fin 2000"
    "js_mul (responseHeadersEndTime (document_record 1)) (Fin 1000) = Fin 1000"
    "timing (observed_metric 7) = Fin 7"
    by (simp_all add: page_defs fl_small)
  note t = phase_table_omitted_iff [OF page_delivered,
      where r = "image_record 3 5" and s = "Fin 3000" and e = "Fin 5000"]
  from t l have 1: "makePhaseTable
       (page_environment [document_record 1, image_record 3 5] (navigation 2000)
          (observed_metric 7) (document_record 1) (Some (image_record 3 5)))
       (page_artifacts [lcp_element]) page_context =
     Inr (Some (makeTableDetails phase_headings
                  (phaseDetails (Fin 2000) (Fin 1000) (Fin 3000) (Fin 5000) (Fin 7))))"
    by (simp add: page_resolved v)
  from l 1 show ?thesis by simp
qed

text \<open>
  C2, as the spec states it, fails. With the navigation at 2000 and the headers of the
  document at 1 the TTFB is negative, and the table is produced all the same, with the
  negative number in it.
\<close>

theorem negative_ttfb_is_emitted:
  "makePhaseTable
       (page_environment [document_record 1, image_record 3 5] (navigation 2000)
          (observed_metric 7) (document_record 1) (Some (image_record 3 5)))
       (page_artifacts [lcp_element]) page_context =
     Inr (Some \<lparr>headings = phase_headings,
                items = [PhaseItem ''TTFB'' (Fin (- 1)), PhaseItem ''Load Delay'' (Fin 2),
                         PhaseItem ''Load Time'' (Fin 2), PhaseItem ''Render Delay'' (Fin 4)]\<rparr>) \<and>
   (- 1 :: rat) < 0"
  by (simp only: page_makePhaseTable early_page_body) simp

text \<open>
  C3, as the code has it. With a simulated estimate the two timestamps come from the last
  node, in the order of the map, that is a network node with the \<open>requestId\<close> of the LCP
  record: its start and end times, each times 1000 plus the time origin; both are undefined
  when there is no such node. Without an estimate they are the \<open>networkRequestTime\<close> and
  the \<open>networkEndTime\<close> of the LCP record, each times 1000.
\<close>

theorem lcpLoadTs_sources:
  "lcpLoadTs lcpRecord timeOriginTs metricResult =
     (case pessimisticEstimate metricResult of
        Some estimate \<Rightarrow>
          (case List.find (\<lambda>(n, t). is_lcp_node lcpRecord n) (rev (nodeTimings estimate)) of
             None \<Rightarrow> (None, None)
           | Some (n, t) \<Rightarrow>
               (Some (js_add (js_mul (startTime t) (Fin 1000)) timeOriginTs),
                Some (js_add (js_mul (endTime t) (Fin 1000)) timeOriginTs)))
      | None \<Rightarrow>
          (Some (js_mul (networkRequestTime lcpRecord) (Fin 1000)),
           Some (js_mul (networkEndTime lcpRecord) (Fin 1000))))"
proof (cases "pessimisticEstimate metricResult")
  case None
  then show ?thesis by (simp add: lcpLoadTs_def)
next
  case (Some estimate)
  have "lcpLoadTs lcpRecord timeOriginTs metricResult =
      nodeTimings_loop lcpRecord timeOriginTs (nodeTimings estimate) (None, None)"
    using Some by (simp add: lcpLoadTs_def)
  also have "\<dots> =
      (case List.find (\<lambda>(n, t). is_lcp_node lcpRecord n) (rev (nodeTimings estimate)) of
         None \<Rightarrow> (None, None)
       | Some (n, t) \<Rightarrow>
           (Some (js_add (js_mul (startTime t) (Fin 1000)) timeOriginTs),
            Some (js_add (js_mul (endTime t) (Fin 1000)) timeOriginTs)))"
    by (rule nodeTimings_loop_find)
  finally show ?thesis using Some by simp
qed

text \<open>
  C3, as the spec states it, fails: an observed request time of 3 and end time of 5 give
  the timestamps 3000 and 5000, not 3 and 5.
\<close>

theorem observed_times_are_scaled:
  "pessimisticEstimate (observed_metric 7) = None \<and>
   networkRequestTime (image_record 3 5) = Fin 3 \<and>
   networkEndTime (image_record 3 5) = Fin 5 \<and>
   lcpLoadTs (image_record 3 5) (Fin 1000) (observed_metric 7) =
     (Some (Fin 3000), Some (Fin 5000)) \<and>
   lcpLoadTs (image_record 3 5) (Fin 1000) (observed_metric 7) \<noteq>
     (Some (networkRequestTime (image_record 3 5)), Some (networkEndTime (image_record 3 5)))"
  by (simp add: lcpLoadTs_def page_defs fl_small)

text \<open>
  C4, as the code has it. The TTFB of a produced table is the \<open>responseHeadersEndTime\<close> of
  the main resource times 1000, minus the time origin, divided by 1000; it reads nothing
  of the LCP record.
\<close>

theorem ttfb_from_main_resource:
  assumes "delivered env a c nr pn mr main" and "makePhaseTable env a c = Inr (Some tbl)"
  shows "\<exists>rest. items tbl =
           PhaseItem ''TTFB''
             (js_div_const
                (js_sub (js_mul (responseHeadersEndTime main) (Fin 1000))
                   (timeOrigin (timestamps pn)))
                1000) # rest"
proof -
  from makePhaseTable_delivered [OF assms(1)] assms(2)
  have "makePhaseTable_body (resolved env a pn nr) pn mr main = Some tbl" by simp
  from makePhaseTable_body_SomeD [OF this] obtain s e
    where "tbl = makeTableDetails phase_headings
                   (phaseDetails (timeOrigin (timestamps pn))
                      (js_mul (responseHeadersEndTime main) (Fin 1000)) s e (timing mr))"
    by blast
  then show ?thesis by (simp add: makeTableDetails_def phaseDetails_def Let_def)
qed

text \<open>The simulated load: (2 * 1000 - 1000) / 1000 is 1.\<close>

theorem ttfb_from_main_resource_witness:
  "\<exists>tbl rest.
     makePhaseTable
       (page_environment [document_record 2, image_record 3 5] (navigation 1000)
          (simulated_metric 7
             [(CPUNode, \<lparr>startTime = Fin 0, endTime = Fin 1\<rparr>),
              (NetworkNode (image_record 0 0), \<lparr>startTime = Fin 2, endTime = Fin 4\<rparr>)])
          (document_record 2) (Some (image_record 3 5)))
       (page_artifacts [lcp_element]) page_context = Inr (Some tbl) \<and>
     items tbl = PhaseItem ''TTFB'' (Fin 1) # rest"
proof -
  have h: "makePhaseTable
       (page_environment [document_record 2, image_record 3 5] (navigation 1000)
          (simulated_metric 7
             [(CPUNode, \<lparr>startTime = Fin 0, endTime = Fin 1\<rparr>),
              (NetworkNode (image_record 0 0), \<lparr>startTime = Fin 2, endTime = Fin 4\<rparr>)])
          (document_record 2) (Some (image_record 3 5)))
       (page_artifacts [lcp_element]) page_context =
     Inr (Some \<lparr>headings = phase_headings,
                items = [PhaseItem ''TTFB'' (Fin 1), PhaseItem ''Load Delay'' (Fin 1),
                         PhaseItem ''Load Time'' (Fin 2), PhaseItem ''Render Delay'' (Fin 3)]\<rparr>)"
    by (simp only: page_makePhaseTable simulated_page_body)
  have v: "js_div_const
      (js_sub (js_mul (responseHeadersEndTime (document_record 2)) (Fin 1000))
         (timeOrigin (timestamps (navigation 1000))))
      1000 = Fin 1"
    by (simp add: page_defs js_sub_def fl_small)
  from ttfb_from_main_resource [OF page_delivered h] h show ?thesis
    unfolding v by blast
qed

text \<open>
  C4, as the spec states it, fails: on the observed load the first byte is at 2000 and the
  time origin at 1000, their difference is 1000, and the TTFB of the table is 1.
\<close>

theorem ttfb_is_not_the_difference:
  "makePhaseTable
       (page_environment [document_record 2, image_record 3 5] (navigation 1000)
          (observed_metric 7) (document_record 2) (Some (image_record 3 5)))
       (page_artifacts [lcp_element]) page_context =
     Inr (Some \<lparr>headings = phase_headings,
                items = [PhaseItem ''TTFB'' (Fin 1), PhaseItem ''Load Delay'' (Fin 1),
                         PhaseItem ''Load Time'' (Fin 2), PhaseItem ''Render Delay'' (Fin 3)]\<rparr>) \<and>
   js_sub (js_mul (responseHeadersEndTime (document_record 2)) (Fin 1000))
     (timeOrigin (timestamps (navigation 1000))) = Fin 1000 \<and>
   Fin 1 \<noteq> Fin 1000"
proof -
  have "makePhaseTable
       (page_environment [document_record 2, image_record 3 5] (navigation 1000)
          (observed_metric 7) (document_record 2) (Some (image_record 3 5)))
       (page_artifacts [lcp_element]) page_context =
     Inr (Some \<lparr>headings = phase_headings,
                items = [PhaseItem ''TTFB'' (Fin 1), PhaseItem ''Load Delay'' (Fin 1),
                         PhaseItem ''Load Time'' (Fin 2), PhaseItem ''Render Delay'' (Fin 3)]\<rparr>)"
    by (simp only: page_makePhaseTable observed_page_body)
  moreover have "js_sub (js_mul (responseHeadersEndTime (document_record 2)) (Fin 1000))
     (timeOrigin (timestamps (navigation 1000))) = Fin 1000"
    by (simp add: page_defs js_sub_def fl_small)
  moreover have "Fin 1 \<noteq> Fin 1000" by simp
  ultimately show ?thesis by blast
qed

text \<open>
  C5. With a simulated estimate, two LCP records that agree on \<open>requestId\<close> give the
  same result, whatever their observed times are; without one, the result depends on the
  metric only through its \<open>timing\<close>.
\<close>

theorem one_timing_source:
  "(pessimisticEstimate mr = Some est \<and> requestId r' = requestId r \<longrightarrow>
      lcpLoadTs r' t0 mr = lcpLoadTs r t0 mr \<and>
      makePhaseTable_body (Some r') pn mr main = makePhaseTable_body (Some r) pn mr main) \<and>
   (pessimisticEstimate mr = None \<and> pessimisticEstimate mr' = None \<and>
    timing mr' = timing mr \<longrightarrow>
      lcpLoadTs r t0 mr' =
        (Some (js_mul (networkRequestTime r) (Fin 1000)),
         Some (js_mul (networkEndTime r) (Fin 1000))) \<and>
      makePhaseTable_body (Some r) pn mr' main = makePhaseTable_body (Some r) pn mr main)"
proof (intro conjI impI)
  assume h: "pessimisticEstimate mr = Some est \<and> requestId r' = requestId r"
  then have n: "is_lcp_node r' = is_lcp_node r"
  proof -
    have "is_lcp_node r' n = is_lcp_node r n" for n using h by (cases n) simp_all
    then show ?thesis by (rule ext)
  qed
  show "lcpLoadTs r' t0 mr = lcpLoadTs r t0 mr" for t0
    using h by (simp add: lcpLoadTs_def nodeTimings_loop_find n)
  then show "makePhaseTable_body (Some r') pn mr main = makePhaseTable_body (Some r) pn mr main"
    by (simp add: makePhaseTable_body_def)
next
  assume h: "pessimisticEstimate mr = None \<and> pessimisticEstimate mr' = None \<and>
    timing mr' = timing mr"
  then show "lcpLoadTs r t0 mr' =
      (Some (js_mul (networkRequestTime r) (Fin 1000)),
       Some (js_mul (networkEndTime r) (Fin 1000)))"
    by (simp add: lcpLoadTs_def)
  from h show "makePhaseTable_body (Some r) pn mr' main = makePhaseTable_body (Some r) pn mr main"
    by (simp add: makePhaseTable_body_def lcpLoadTs_def)
qed


text \<open>
  The simulated load, read with a record whose observed times are 100 and 200 instead of
  3 and 5; and the observed load.
\<close>

theorem one_timing_source_witness:
  "makePhaseTable_body (Some (image_record 100 200)) (navigation 1000)
       (simulated_metric 7
          [(CPUNode, \<lparr>startTime = Fin 0, endTime = Fin 1\<rparr>),
           (NetworkNode (image_record 0 0), \<lparr>startTime = Fin 2, endTime = Fin 4\<rparr>)])
       (document_record 2) =
     Some \<lparr>headings = phase_headings,
           items = [PhaseItem ''TTFB'' (Fin 1), PhaseItem ''Load Delay'' (Fin 1),
                    PhaseItem ''Load Time'' (Fin 2),
                    PhaseItem ''Render Delay'' (Fin 3) :: string item]\<rparr> \<and>
   lcpLoadTs (image_record 3 5) (Fin 1000) (observed_metric 7) =
     (Some (js_mul (Fin 3) (Fin 1000)), Some (js_mul (Fin 5) (Fin 1000)))"
proof -
  let ?sim = "simulated_metric 7
          [(CPUNode, \<lparr>startTime = Fin 0, endTime = Fin 1\<rparr>),
           (NetworkNode (image_record 0 0), \<lparr>startTime = Fin 2, endTime = Fin 4\<rparr>)]"
  have e: "pessimisticEstimate ?sim =
      Some \<lparr>nodeTimings = [(CPUNode, \<lparr>startTime = Fin 0, endTime = Fin 1\<rparr>),
           (NetworkNode (image_record 0 0), \<lparr>startTime = Fin 2, endTime = Fin 4\<rparr>)]\<rparr>"
    by (simp add: simulated_metric_def)
  have i: "requestId (image_record 100 200) = requestId (image_record 3 5)"
    by (simp add: image_record_def)
  have o: "pessimisticEstimate (observed_metric 7) = None"
    by (simp add: observed_metric_def)
  have n: "networkRequestTime (image_record 3 5) = Fin 3"
    "networkEndTime (image_record 3 5) = Fin 5"
    by (simp_all add: image_record_def)
  have 1: "makePhaseTable_body (Some (image_record 100 200)) (navigation 1000) ?sim
      (document_record 2) =
    (makePhaseTable_body (Some (image_record 3 5)) (navigation 1000) ?sim
      (document_record 2) :: string table option)"
    by (rule one_timing_source [where est = "\<lparr>nodeTimings =
          [(CPUNode, \<lparr>startTime = Fin 0, endTime = Fin 1\<rparr>),
           (NetworkNode (image_record 0 0), \<lparr>startTime = Fin 2, endTime = Fin 4\<rparr>)]\<rparr>",
          THEN conjunct1, THEN mp, THEN conjunct2])
      (simp add: e i)
  have 2: "lcpLoadTs (image_record 3 5) (Fin 1000) (observed_metric 7) =
     (Some (js_mul (Fin 3) (Fin 1000)), Some (js_mul (Fin 5) (Fin 1000)))"
    using one_timing_source [where mr = "observed_metric 7" and mr' = "observed_metric 7"
        and r = "image_record 3 5" and ?t0.0 = "Fin 1000"] o n
    by simp
  from 1 2 show ?thesis by (simp only: simulated_page_body)
qed

text \<open>
  C6. With the artifacts delivered and an LCP record resolved, no phase table is produced
  when \<open>lcpLoadStartTs\<close> or \<open>lcpLoadEndTs\<close> is zero or undefined; and both are undefined
  when there is a simulated estimate none of whose nodes is a network node with the
  \<open>requestId\<close> of the LCP record.
\<close>

theorem unavailable_timestamps_abort:
  assumes "delivered env a c nr pn mr main" and "resolved env a pn nr = Some r"
    and "lcpLoadTs r (timeOrigin (timestamps pn)) mr = (s, e)"
  shows "(s = None \<or> s = Some (Fin 0) \<or> e = None \<or> e = Some (Fin 0) \<longrightarrow>
            makePhaseTable env a c = Inr None) \<and>
         (pessimisticEstimate mr = Some est \<and>
          list_all (\<lambda>(n, t). \<not> is_lcp_node r n) (nodeTimings est) \<longrightarrow>
            s = None \<and> e = None)"
proof (intro conjI impI)
  assume "s = None \<or> s = Some (Fin 0) \<or> e = None \<or> e = Some (Fin 0)"
  then have "ts_unavailable s \<or> ts_unavailable e" by auto
  then have "makePhaseTable_body (Some r) pn mr main = None"
    by (simp add: makePhaseTable_body_eq_None_iff assms(3))
  then show "makePhaseTable env a c = Inr None"
    using makePhaseTable_delivered [OF assms(1)] assms(2) by simp
next
  assume h: "pessimisticEstimate mr = Some est \<and>
    list_all (\<lambda>(n, t). \<not> is_lcp_node r n) (nodeTimings est)"
  then have "List.find (\<lambda>(n, t). is_lcp_node r n) (rev (nodeTimings est)) = None"
    by (auto simp: find_None_iff list_all_iff)
  with h have "lcpLoadTs r (timeOrigin (timestamps pn)) mr = (None, None)"
    by (simp add: lcpLoadTs_def nodeTimings_loop_find)
  with assms(3) show "s = None" and "e = None" by simp_all
qed


text \<open>
  An image whose observed request time is zero, and a simulation without the node of the
  image.
\<close>

theorem unavailable_timestamps_abort_witness:
  "lcpLoadTs (image_record 0 5) (timeOrigin (timestamps (navigation 1000))) (observed_metric 7) =
     (Some (Fin 0), Some (Fin 5000)) \<and>
   makePhaseTable
     (page_environment [document_record 2, image_record 0 5] (navigation 1000)
        (observed_metric 7) (document_record 2) (Some (image_record 0 5)))
     (page_artifacts [lcp_element]) page_context = Inr None \<and>
   lcpLoadTs (image_record 3 5) (timeOrigin (timestamps (navigation 1000)))
     (simulated_metric 7 [(CPUNode, \<lparr>startTime = Fin 0, endTime = Fin 1\<rparr>)]) = (None, None) \<and>
   makePhaseTable
     (page_environment [document_record 2, image_record 3 5] (navigation 1000)
        (simulated_metric 7 [(CPUNode, \<lparr>startTime = Fin 0, endTime = Fin 1\<rparr>)])
        (document_record 2) (Some (image_record 3 5)))
     (page_artifacts [lcp_element]) page_context = Inr None"
proof -
  let ?sim = "simulated_metric 7 [(CPUNode, \<lparr>startTime = Fin 0, endTime = Fin 1\<rparr>)]"
  have l1: "lcpLoadTs (image_record 0 5) (timeOrigin (timestamps (navigation 1000)))
      (observed_metric 7) = (Some (Fin 0), Some (Fin 5000))"
    by (simp add: lcpLoadTs_def page_defs fl_small)
  have 1: "makePhaseTable
     (page_environment [document_record 2, image_record 0 5] (navigation 1000)
        (observed_metric 7) (document_record 2) (Some (image_record 0 5)))
     (page_artifacts [lcp_element]) page_context = Inr None"
    using unavailable_timestamps_abort [OF page_delivered page_resolved l1] by simp
  have e: "pessimisticEstimate ?sim =
      Some \<lparr>nodeTimings = [(CPUNode, \<lparr>startTime = Fin 0, endTime = Fin 1\<rparr>)]\<rparr>"
    by (simp add: simulated_metric_def)
  have l2: "lcpLoadTs (image_record 3 5) (timeOrigin (timestamps (navigation 1000))) ?sim =
      (fst (lcpLoadTs (image_record 3 5) (timeOrigin (timestamps (navigation 1000))) ?sim),
       snd (lcpLoadTs (image_record 3 5) (timeOrigin (timestamps (navigation 1000))) ?sim))"
    by simp
  note t = unavailable_timestamps_abort [OF page_delivered page_resolved l2,
      where est = "\<lparr>nodeTimings = [(CPUNode, \<lparr>startTime = Fin 0, endTime = Fin 1\<rparr>)]\<rparr>"]
  from t e have n: "lcpLoadTs (image_record 3 5) (timeOrigin (timestamps (navigation 1000))) ?sim =
      (None, None)"
    by (simp add: prod_eq_iff)
  with t have 2: "makePhaseTable
     (page_environment [document_record 2, image_record 3 5] (navigation 1000) ?sim
        (document_record 2) (Some (image_record 3 5)))
     (page_artifacts [lcp_element]) page_context = Inr None"
    by simp
  from l1 1 n 2 show ?thesis by simp
qed

text \<open>
  C7. When the four computed artifacts arrive and \<open>getLcpRecord\<close> resolves no record,
  \<open>makePhaseTable\<close> returns nothing and the details of the audit are the element table
  alone: no phase table, not even a partial one.
\<close>

theorem no_record_no_phase_table:
  assumes "delivered env a c nr pn mr main" and "resolved env a pn nr = None"
  shows "makePhaseTable env a c = Inr None \<and>
         (\<exists>p. audit env a c = Inr p \<and> details p = [elementTable (TraceElements a)])"
proof -
  have "makePhaseTable env a c = Inr None"
    using makePhaseTable_delivered [OF assms(1)] assms(2)
    by (simp add: makePhaseTable_body_None)
  moreover have "\<exists>p. audit env a c = Inr p \<and> details p = [elementTable (TraceElements a)]"
    using audit_delivered [OF assms(1)] assms(2)
    by (simp add: makePhaseTable_body_None)
  ultimately show ?thesis by simp
qed

text \<open>A text paint: the element is found, no network record backs it.\<close>

theorem no_record_no_phase_table_witness:
  "delivered
     (page_environment [document_record 2] (navigation 1000) (observed_metric 7)
        (document_record 2) None)
     (page_artifacts [lcp_element]) page_context
     [document_record 2] (navigation 1000) (observed_metric 7) (document_record 2) \<and>
   makePhaseTable
     (page_environment [document_record 2] (navigation 1000) (observed_metric 7)
        (document_record 2) None)
     (page_artifacts [lcp_element]) page_context = Inr None \<and>
   (\<exists>p. audit
          (page_environment [document_record 2] (navigation 1000) (observed_metric 7)
             (document_record 2) None)
          (page_artifacts [lcp_element]) page_context = Inr p \<and>
        details p =
          [\<lparr>headings = [\<lparr>key = ''node'', valueType = ''node'',
                          label = Icu ''columnElement'' []\<rparr>],
            items = [NodeItem ''img.hero'']\<rparr>])"
proof -
  have d: "delivered
     (page_environment [document_record 2] (navigation 1000) (observed_metric 7)
        (document_record 2) None)
     (page_artifacts [lcp_element]) page_context
     [document_record 2] (navigation 1000) (observed_metric 7) (document_record 2)"
    by (rule page_delivered)
  have r: "resolved
     (page_environment [document_record 2] (navigation 1000) (observed_metric 7)
        (document_record 2) None)
     (page_artifacts [lcp_element]) (navigation 1000) [document_record 2] = None"
    by (rule page_resolved)
  have e: "elementTable (TraceElements (page_artifacts [lcp_element])) =
      \<lparr>headings = [\<lparr>key = ''node'', valueType = ''node'', label = Icu ''columnElement'' []\<rparr>],
       items = [NodeItem ''img.hero'']\<rparr>"
    by (simp add: elementTable_def lcpElementDetails_def page_artifacts_def lcp_element_def
        makeTableDetails_def makeNodeItem_def str_icu_def)
  from no_record_no_phase_table [OF d r] d e show ?thesis by simp
qed

text \<open>
  C8. When the four computed artifacts arrive, \<open>audit\<close> raises nothing: it returns a
  product with score 1 whose details are the element table, followed by the phase table
  when there is one.
\<close>

theorem audit_never_raises:
  assumes "delivered env a c nr pn mr main"
  shows "\<exists>p. audit env a c = Inr p \<and> score p = Fin 1 \<and>
           (details p = [elementTable (TraceElements a)] \<or>
            (\<exists>t. makePhaseTable env a c = Inr (Some t) \<and>
                 details p = [elementTable (TraceElements a), t]))"
  using audit_delivered [OF assms] makePhaseTable_delivered [OF assms]
  by (auto split: option.splits)


text \<open>
  No element in the trace, and a simulation whose only node is not the node of the image:
  two of the failure paths at once.
\<close>

theorem audit_never_raises_witness:
  "delivered
     (page_environment [document_record 2, image_record 3 5] (navigation 1000)
        (simulated_metric 7 [(CPUNode, \<lparr>startTime = Fin 0, endTime = Fin 1\<rparr>)])
        (document_record 2) (Some (image_record 3 5)))
     (page_artifacts []) page_context
     [document_record 2, image_record 3 5] (navigation 1000)
     (simulated_metric 7 [(CPUNode, \<lparr>startTime = Fin 0, endTime = Fin 1\<rparr>)])
     (document_record 2) \<and>
   (\<exists>p. audit
          (page_environment [document_record 2, image_record 3 5] (navigation 1000)
             (simulated_metric 7 [(CPUNode, \<lparr>startTime = Fin 0, endTime = Fin 1\<rparr>)])
             (document_record 2) (Some (image_record 3 5)))
          (page_artifacts []) page_context = Inr p \<and>
        score p = Fin 1 \<and>
        details p = [elementTable (TraceElements (page_artifacts []))])"
proof -
  have d: "delivered
     (page_environment [document_record 2, image_record 3 5] (navigation 1000)
        (simulated_metric 7 [(CPUNode, \<lparr>startTime = Fin 0, endTime = Fin 1\<rparr>)])
        (document_record 2) (Some (image_record 3 5)))
     (page_artifacts []) page_context
     [document_record 2, image_record 3 5] (navigation 1000)
     (simulated_metric 7 [(CPUNode, \<lparr>startTime = Fin 0, endTime = Fin 1\<rparr>)])
     (document_record 2)"
    by (rule page_delivered)
  have n: "makePhaseTable
     (page_environment [document_record 2, image_record 3 5] (navigation 1000)
        (simulated_metric 7 [(CPUNode, \<lparr>startTime = Fin 0, endTime = Fin 1\<rparr>)])
        (document_record 2) (Some (image_record 3 5)))
     (page_artifacts []) page_context = Inr None"
    by (simp add: page_makePhaseTable body_defs page_defs)
  from audit_never_raises [OF d] n d show ?thesis by auto
qed

text \<open>
  C9. Whenever \<open>makePhaseTable\<close> produces a phase breakdown, its rows are exactly four
  and come in the fixed order TTFB, Load Delay, Load Time, Render Delay.
\<close>

theorem phases_in_fixed_order:
  assumes "makePhaseTable env a c = Inr (Some tbl)"
  shows "\<exists>ttfb loadDelay loadTime renderDelay.
           items tbl =
             [PhaseItem ''TTFB'' ttfb, PhaseItem ''Load Delay'' loadDelay,
              PhaseItem ''Load Time'' loadTime, PhaseItem ''Render Delay'' renderDelay]"
proof -
  from makePhaseTable_InrD [OF assms] obtain nr pn mr main
    where "Some tbl = makePhaseTable_body (resolved env a pn nr) pn mr main" by blast
  then have "makePhaseTable_body (resolved env a pn nr) pn mr main = Some tbl" by simp
  from makePhaseTable_body_SomeD [OF this] obtain s e
    where "tbl = makeTableDetails phase_headings
                   (phaseDetails (timeOrigin (timestamps pn))
                      (js_mul (responseHeadersEndTime main) (Fin 1000)) s e (timing mr))"
    by blast
  then show ?thesis by (simp add: makeTableDetails_def phaseDetails_def Let_def)
qed

theorem phases_in_fixed_order_witness:
  "\<exists>tbl ttfb loadDelay loadTime renderDelay.
     makePhaseTable
       (page_environment [document_record 2, image_record 3 5] (navigation 1000)
          (observed_metric 7) (document_record 2) (Some (image_record 3 5)))
       (page_artifacts [lcp_element]) page_context = Inr (Some tbl) \<and>
     items tbl =
       [PhaseItem ''TTFB'' ttfb, PhaseItem ''Load Delay'' loadDelay,
        PhaseItem ''Load Time'' loadTime, PhaseItem ''Render Delay'' renderDelay]"
proof -
  have h: "makePhaseTable
       (page_environment [document_record 2, image_record 3 5] (navigation 1000)
          (observed_metric 7) (document_record 2) (Some (image_record 3 5)))
       (page_artifacts [lcp_element]) page_context =
     Inr (Some \<lparr>headings = phase_headings,
                items = [PhaseItem ''TTFB'' (Fin 1), PhaseItem ''Load Delay'' (Fin 1),
                         PhaseItem ''Load Time'' (Fin 2), PhaseItem ''Render Delay'' (Fin 3)]\<rparr>)"
    by (simp only: page_makePhaseTable observed_page_body)
  from phases_in_fixed_order [OF h] h show ?thesis by blast
qed

text \<open>
  C10. The product of \<open>audit\<close> always has score 1, and its \<open>notApplicable\<close> flag only
  says whether \<open>TraceElements\<close> has an entry of type \<open>largest-contentful-paint\<close>, while
  \<open>makePhaseTable\<close> does not read \<open>TraceElements\<close> at all. So a page whose trace elements
  are empty but whose LCP record resolves is not applicable, with an empty element table,
  and still carries a phase breakdown.
\<close>

theorem flag_and_phase_table_independent:
  "(audit env a c = Inr p \<longrightarrow>
      score p = Fin 1 \<and>
      notApplicable p =
        (List.find (\<lambda>element. traceEventType element = ''largest-contentful-paint'')
           (TraceElements a) = None)) \<and>
   makePhaseTable env (a\<lparr>TraceElements := te\<rparr>) c = makePhaseTable env a c \<and>
   (\<exists>q t. audit
            (page_environment [document_record 2, image_record 3 5] (navigation 1000)
               (observed_metric 7) (document_record 2) (Some (image_record 3 5)))
            (page_artifacts []) page_context = Inr q \<and>
          notApplicable q \<and>
          details q =
            [\<lparr>headings = [\<lparr>key = ''node'', valueType = ''node'',
                            label = Icu ''columnElement'' []\<rparr>],
              items = []\<rparr>, t] \<and>
          items t =
            [PhaseItem ''TTFB'' (Fin 1), PhaseItem ''Load Delay'' (Fin 1),
             PhaseItem ''Load Time'' (Fin 2), PhaseItem ''Render Delay'' (Fin 3)])"
proof (intro conjI impI)
  assume h: "audit env a c = Inr p"
  then show "score p = Fin 1"
    by (auto simp: audit_def Let_def split: sum.splits)
  from h show "notApplicable p =
      (List.find (\<lambda>element. traceEventType element = ''largest-contentful-paint'')
         (TraceElements a) = None)"
    by (auto simp: audit_def Let_def lcpElementDetails_def split: sum.splits option.splits)
next
  show "makePhaseTable env (a\<lparr>TraceElements := te\<rparr>) c = makePhaseTable env a c"
    by (simp add: makePhaseTable_def)
next
  have "audit
      (page_environment [document_record 2, image_record 3 5] (navigation 1000)
         (observed_metric 7) (document_record 2) (Some (image_record 3 5)))
      (page_artifacts []) page_context =
    Inr \<lparr>score = Fin 1, notApplicable = True,
         displayValue = Icu ''displayValueElementsFound'' [(''nodeCount'', 0)],
         details =
           [\<lparr>headings = [\<lparr>key = ''node'', valueType = ''node'',
                           label = Icu ''columnElement'' []\<rparr>],
             items = []\<rparr>,
            \<lparr>headings = phase_headings,
             items = [PhaseItem ''TTFB'' (Fin 1), PhaseItem ''Load Delay'' (Fin 1),
                      PhaseItem ''Load Time'' (Fin 2), PhaseItem ''Render Delay'' (Fin 3)]\<rparr>]\<rparr>"
    by (subst audit_delivered [OF page_delivered])
      (simp add: page_resolved observed_page_body elementTable_def lcpElementDetails_def
        page_artifacts_def makeTableDetails_def str_icu_def)
  then show "\<exists>q t. audit
            (page_environment [document_record 2, image_record 3 5] (navigation 1000)
               (observed_metric 7) (document_record 2) (Some (image_record 3 5)))
            (page_artifacts []) page_context = Inr q \<and>
          notApplicable q \<and>
          details q =
            [\<lparr>headings = [\<lparr>key = ''node'', valueType = ''node'',
                            label = Icu ''columnElement'' []\<rparr>],
              items = []\<rparr>, t] \<and>
          items t =
            [PhaseItem ''TTFB'' (Fin 1), PhaseItem ''Load Delay'' (Fin 1),
             PhaseItem ''Load Time'' (Fin 2), PhaseItem ''Render Delay'' (Fin 3)]"
    by simp
qed

text \<open>The observed load with its element in the trace: the audit applies.\<close>

theorem flag_and_phase_table_independent_witness:
  "\<exists>p. audit
          (page_environment [document_record 2, image_record 3 5] (navigation 1000)
             (observed_metric 7) (document_record 2) (Some (image_record 3 5)))
          (page_artifacts [lcp_element]) page_context = Inr p \<and>
        score p = Fin 1 \<and> \<not> notApplicable p"
proof -
  from audit_delivered [OF page_delivered] obtain p where p: "audit
          (page_environment [document_record 2, image_record 3 5] (navigation 1000)
             (observed_metric 7) (document_record 2) (Some (image_record 3 5)))
          (page_artifacts [lcp_element]) page_context = Inr p"
    by blast
  from flag_and_phase_table_independent [where env = "page_environment
        [document_record 2, image_record 3 5] (navigation 1000)
             (observed_metric 7) (document_record 2) (Some (image_record 3 5))"
      and a = "page_artifacts [lcp_element]" and c = page_context and p = p] p
  have "score p = Fin 1 \<and> \<not> notApplicable p"
    by (simp add: page_artifacts_def lcp_element_def)
  with p show ?thesis by blast
qed

end
